theory Spec2Isabelle
  imports Complex_Main
begin

section \<open>Errors and batched tensors\<close>

text \<open>
  The Python exceptions that the modelled functions can raise. The string is
  the message of the source's \<^verbatim>\<open>assert\<close> or of the tensor library.
\<close>

datatype error =
    AssertionError string
  | IndexError
  | RuntimeError string
  | TypeError
  | ValueError string
  | LinAlgError

text \<open>
  A tensor of shape \<^verbatim>\<open>[batch_size, num, d]\<close>: \<open>lanes\<close> holds one list per
  batch entry, each of \<open>num\<close> elements of \<open>d\<close> numbers. The element count is
  kept beside the data because the source reads it from \<^verbatim>\<open>shape\<close> also when
  the batch is empty. Numbers are real numbers: rounding of the floating-point
  formats is not part of the model.
\<close>

record 'a batched =
  num :: nat
  lanes :: "'a list list"

definition wf_batched :: "'a batched \<Rightarrow> bool" where
  "wf_batched T = list_all (\<lambda>l. length l = num T) (lanes T)"

type_synonym vec3 = "real \<times> real \<times> real"

fun vadd :: "vec3 \<Rightarrow> vec3 \<Rightarrow> vec3" where
  "vadd (a, b, c) (d, e, f) = (a + d, b + e, c + f)"

fun vsub :: "vec3 \<Rightarrow> vec3 \<Rightarrow> vec3" where
  "vsub (a, b, c) (d, e, f) = (a - d, b - e, c - f)"

fun smul :: "real \<Rightarrow> vec3 \<Rightarrow> vec3" where
  "smul s (a, b, c) = (s * a, s * b, s * c)"

fun vmul :: "vec3 \<Rightarrow> real \<Rightarrow> vec3" where
  "vmul (a, b, c) s = (a * s, b * s, c * s)"

fun sdiv :: "vec3 \<Rightarrow> real \<Rightarrow> vec3" where
  "sdiv (a, b, c) s = (a / s, b / s, c / s)"

section \<open>Tensor library functions used by the splines\<close>

text \<open>
  \<^verbatim>\<open>torch.arange(start, end, step)\<close>: the values \<open>start + i * step\<close> for
  \<open>i < \<lceil>(end - start) / step\<rceil>\<close>; a zero step, or bounds that contradict the
  sign of the step, raise.
\<close>

definition arange :: "real \<Rightarrow> real \<Rightarrow> real \<Rightarrow> error + real list" where
  "arange start end step =
     (if step = 0 then Inl (RuntimeError ''step must be nonzero'')
      else if (step > 0 \<and> start > end) \<or> (step < 0 \<and> start < end)
        then Inl (RuntimeError ''upper bound and larger bound inconsistent with step sign'')
      else Inr (map (\<lambda>i. start + real i * step) [0..<nat \<lceil>(end - start) / step\<rceil>]))"

text \<open>
  \<^verbatim>\<open>torch.searchsorted(seq, v)\<close> with its default \<^verbatim>\<open>right=False\<close>: the first
  index whose element is not below \<open>v\<close>, the length when there is none.
\<close>

fun searchsorted :: "real list \<Rightarrow> real \<Rightarrow> nat" where
  "searchsorted [] v = 0"
| "searchsorted (a # as) v = (if a < v then Suc (searchsorted as v) else 0)"

text \<open>Matrix times vector, for the constant basis matrices.\<close>

definition matvec :: "real list list \<Rightarrow> real list \<Rightarrow> real list" where
  "matvec M v = map (\<lambda>row. sum_list (map2 (*) row v)) M"

text \<open>\<^verbatim>\<open>t ** alpha\<close> for \<^verbatim>\<open>alpha = arange(4)\<close>: the powers \<open>1, t, t\<^sup>2, t\<^sup>3\<close>.\<close>

definition powers :: "real \<Rightarrow> real list" where
  "powers t = map (\<lambda>a. t ^ a) [0..<4]"

section \<open>CSplineR3\<close>

definition hermite_A :: "real list list" where
  "hermite_A = [[1, 0, -3, 2],
                [0, 1, -2, 1],
                [0, 0, 3, -2],
                [0, 0, -1, 1]]"

text \<open>
  Lines 67 to 68: the breakpoints \<^verbatim>\<open>x = arange(num_p)\<close>, the same in every
  lane.
\<close>

definition breakpoints :: "nat \<Rightarrow> real list" where
  "breakpoints num_p = map real [0..<num_p]"

text \<open>
  Lines 69 to 70: the one-sided differences of one lane, divided by the
  breakpoint spacing.
\<close>

definition differences :: "real list \<Rightarrow> vec3 list \<Rightarrow> vec3 list" where
  "differences x ps =
     map2 sdiv (map2 vsub (tl ps) (butlast ps)) (map2 (-) (tl x) (butlast x))"

text \<open>
  Line 71: the tangents. \<^verbatim>\<open>m[..., [0], :]\<close> raises when there is no
  difference, that is with fewer than two points.
\<close>

definition tangents :: "vec3 list \<Rightarrow> vec3 list" where
  "tangents d =
     [d ! 0] @ map2 (\<lambda>a b. sdiv (vadd a b) 2) (tl d) (butlast d) @ [last d]"

text \<open>Lines 73 to 87 for one lane and one query time with segment index \<open>i\<close>.\<close>

definition interpoint :: "real list \<Rightarrow> vec3 list \<Rightarrow> vec3 list \<Rightarrow> real \<Rightarrow> nat \<Rightarrow> vec3" where
  "interpoint x ps m q i =
     (let dx = x ! (i + 1) - x ! i;
          t = (q - x ! i) / dx;
          hh = matvec hermite_A (powers t)
      in vadd (vadd (vadd (smul (hh ! 0) (ps ! i))
                          (vmul (smul (hh ! 1) (m ! i)) dx))
                    (smul (hh ! 2) (ps ! (i + 1))))
              (vmul (smul (hh ! 3) (m ! (i + 1))) dx))"

definition CSplineR3 :: "vec3 batched \<Rightarrow> real \<Rightarrow> error + vec3 list list" where
  "CSplineR3 points steps =
     (let num_p = num points in
      case arange 0 (real num_p - 1 + steps) steps of
        Inl e \<Rightarrow> Inl e
      | Inr xs \<Rightarrow>
          let x = breakpoints num_p in
          if num_p < 2 then Inl IndexError
          else if lanes points = [] then Inl IndexError
          else
            let idxs = map (searchsorted (tl x)) xs in
            if \<exists>i \<in> set idxs. num_p \<le> i + 1 then Inl IndexError
            else Inr (map (\<lambda>ps. map2 (interpoint x ps (tangents (differences x ps))) xs idxs)
                          (lanes points)))"

section \<open>BSplineSE3\<close>

text \<open>
  A control pose: a translation and a quaternion, seven numbers.
\<close>

record pose =
  tx :: real
  ty :: real
  tz :: real
  qx :: real
  qy :: real
  qz :: real
  qw :: real

text \<open>
  The time tensor: its shape, of any rank, and its numbers in row-major
  order.
\<close>

record tensor =
  shape :: "nat list"
  flat :: "real list"

text \<open>
  The operations of the LieTensor class that BSplineSE3 calls: the product
  \<^verbatim>\<open>*\<close> of two poses, \<^verbatim>\<open>Inv\<close>, \<^verbatim>\<open>Log\<close>, \<^verbatim>\<open>Exp\<close>, and the product \<^verbatim>\<open>*\<close> of
  a tangent vector with a weight. The class is not part of the modelled
  files, so the operations are parameters; \<open>'t\<close> is the type of tangent
  vectors. For a time tensor of rank above three the weights of lines 187 to
  194 carry further dimensions, and what lines 184 to 206 then do with the
  padded poses depends on how the class broadcasts its products: that is the
  parameter \<open>Higher_rank\<close>.
\<close>

record 't manifold =
  Mul :: "pose \<Rightarrow> pose \<Rightarrow> pose"
  Inv :: "pose \<Rightarrow> pose"
  Log :: "pose \<Rightarrow> 't"
  Exp :: "'t \<Rightarrow> pose"
  Scale :: "'t \<Rightarrow> real \<Rightarrow> 't"
  Higher_rank :: "pose list list \<Rightarrow> tensor \<Rightarrow> error + pose list list"

text \<open>
  Modelled from the spec: \<^verbatim>\<open>is_SE3\<close>, which spline.py imports from its
  package and which is not among the modelled files. The spec describes it as
  the membership check for SE(3) elements, whose invariant is that the
  quaternion part of every pose has unit norm.
\<close>

definition unit_quaternion :: "pose \<Rightarrow> bool" where
  "unit_quaternion p \<longleftrightarrow> (qx p)\<^sup>2 + (qy p)\<^sup>2 + (qz p)\<^sup>2 + (qw p)\<^sup>2 = 1"

definition is_SE3 :: "pose batched \<Rightarrow> bool" where
  "is_SE3 T = list_all (list_all unit_quaternion) (lanes T)"

definition bspline_B :: "real list list" where
  "bspline_B = map (map (\<lambda>c. c / 6)) [[5, 3, -3, 1],
                                        [1, 3, 3, -2],
                                        [0, 0, 0, 1]]"

text \<open>
  Lines 181 to 183 for one lane: the first pose, the lane, the last pose.
  The index \<^verbatim>\<open>[0]\<close> raises on an empty lane; the caller checks that first.
\<close>

definition pad :: "pose list \<Rightarrow> pose list" where
  "pad l = (l ! 0) # l @ [last l]"

text \<open>
  Lines 198 to 205 for one window of four poses \<open>P\<close>, its base pose \<open>T\<close> from
  \<^verbatim>\<open>T_delta\<close> and the weights \<open>w\<close> of one query time.
\<close>

definition interPose :: "'t manifold \<Rightarrow> pose \<Rightarrow> pose list \<Rightarrow> real list \<Rightarrow> pose" where
  "interPose G T P w =
     (let A0 = Exp G (Scale G (Log G (Mul G (Inv G (P ! 0)) (P ! 1))) (w ! 0));
          A1 = Exp G (Scale G (Log G (Mul G (Inv G (P ! 1)) (P ! 2))) (w ! 1));
          A2 = Exp G (Scale G (Log G (Mul G (Inv G (P ! 2)) (P ! 3))) (w ! 2))
      in Mul G (Mul G (Mul G T A0) A1) A2)"

text \<open>
  BSplineSE3, lines 179 to 206. Line 180 reads \<^verbatim>\<open>time.shape[0]\<close> and
  \<^verbatim>\<open>time.shape[1]\<close>, which raises on a tensor of rank below two before the
  comparison is made. On a tensor of rank two, of shape \<open>[1, 1]\<close> after the
  assertion, lines 184 to 205 run as on the shape \<open>[1, 1, 1]\<close>. Line 205
  reshapes to \<^verbatim>\<open>(-1, interPosesSize, 7)\<close>, which the tensor library refuses
  when \<open>interPosesSize\<close> is 0.
\<close>

definition BSplineSE3 :: "'t manifold \<Rightarrow> pose batched \<Rightarrow> tensor \<Rightarrow> error + pose list list" where
  "BSplineSE3 G input_poses time =
     (if \<not> is_SE3 input_poses
        then Inl (AssertionError ''The input poses are not SE3Type.'')
      else if length (shape time) < 2 then Inl IndexError
      else if \<not> (shape time ! 0 = shape time ! 1 \<and> shape time ! 1 = 1)
        then Inl (AssertionError ''The time has wrong shape.'')
      else if num input_poses = 0 then Inl IndexError
      else
        let padded = map pad (lanes input_poses);
            timeSize = last (shape time);
            posesSize = num input_poses + 2
        in if 3 < length (shape time) then Higher_rank G padded time
           else
             let w = map (\<lambda>k. matvec bspline_B (powers (flat time ! k))) [0..<timeSize];
                 interPosesSize = timeSize * (posesSize - 3)
             in if posesSize - 3 = 0
                  then Inl (RuntimeError ''stack expects a non-empty TensorList'')
                else if interPosesSize = 0
                  then Inl (RuntimeError ''cannot reshape tensor of 0 elements into shape [-1, 0, 7]'')
                else Inr (map (\<lambda>l.
                  let posesTensor = map (\<lambda>i. take 4 (drop i l)) [0..<posesSize - 3];
                      T_delta = take (posesSize - 3) l
                  in concat (map (\<lambda>i. map (\<lambda>k. interPose G (T_delta ! i) (posesTensor ! i) (w ! k))
                                           [0..<timeSize])
                                 [0..<posesSize - 3]))
                padded))"

text \<open>
  The pose that the spec prescribes for a window \<open>(P0, P1, P2, P3)\<close> at the
  query time \<open>u\<close>, for comparison with \<open>interPose\<close>:
  \<open>P0 \<cdot> exp (w0 \<cdot> log (P0\<inverse> \<cdot> P1)) \<cdot> exp (w1 \<cdot> log (P1\<inverse> \<cdot> P2)) \<cdot> exp (w2 \<cdot> log (P2\<inverse> \<cdot> P3))\<close>
  with \<open>(w0, w1, w2) = (1/6) [[5, 3, -3, 1], [1, 3, 3, -2], [0, 0, 0, 1]] [1, u, u\<^sup>2, u\<^sup>3]\<close>.
\<close>

definition spec_window_pose ::
  "'t manifold \<Rightarrow> pose \<Rightarrow> pose \<Rightarrow> pose \<Rightarrow> pose \<Rightarrow> real \<Rightarrow> pose" where
  "spec_window_pose G P0 P1 P2 P3 u =
     Mul G (Mul G (Mul G P0
       (Exp G (Scale G (Log G (Mul G (Inv G P0) P1)) ((5 + 3 * u - 3 * u\<^sup>2 + u ^ 3) / 6))))
       (Exp G (Scale G (Log G (Mul G (Inv G P1) P2)) ((1 + 3 * u + 3 * u\<^sup>2 - 2 * u ^ 3) / 6))))
       (Exp G (Scale G (Log G (Mul G (Inv G P2) P3)) (u ^ 3 / 6)))"

text \<open>
  An instance of the operations for evaluating examples: the poses that are
  pure translations, on which SE(3) composes by adding the translations and
  the logarithm is the translation itself.
\<close>

definition shift_group :: "vec3 manifold" where
  "shift_group =
     \<lparr>Mul = (\<lambda>p q. p\<lparr>tx := tx p + tx q, ty := ty p + ty q, tz := tz p + tz q\<rparr>),
      Inv = (\<lambda>p. p\<lparr>tx := - tx p, ty := - ty p, tz := - tz p\<rparr>),
      Log = (\<lambda>p. (tx p, ty p, tz p)),
      Exp = (\<lambda>(a, b, c). \<lparr>tx = a, ty = b, tz = c, qx = 0, qy = 0, qz = 0, qw = 1\<rparr>),
      Scale = vmul,
      Higher_rank = (\<lambda>padded time.
        Inl (RuntimeError ''The size of tensor a must match the size of tensor b''))\<rparr>"

definition shift :: "real \<Rightarrow> real \<Rightarrow> real \<Rightarrow> pose" where
  "shift a b c = \<lparr>tx = a, ty = b, tz = c, qx = 0, qy = 0, qz = 0, qw = 1\<rparr>"

section \<open>Tensors of the optimizers\<close>

text \<open>
  A parameter of the model: its \<^verbatim>\<open>requires_grad\<close> flag and its numbers in
  row-major order. The shape is left out: \<^verbatim>\<open>numel\<close> is the length of the
  data, and \<^verbatim>\<open>d.view(p.shape)\<close> succeeds exactly when \<open>d\<close> has as many numbers
  as \<open>p\<close>.
\<close>

record param =
  requires_grad :: bool
  data :: "real list"

definition numel :: "param \<Rightarrow> nat" where
  "numel p = length (data p)"

text \<open>
  What a model returns, and what a target is: one tensor or a tuple of
  tensors. A tensor is the list of its numbers (rank one).
\<close>

datatype model_output = Single "real list" | Tuple "real list list"

text \<open>
  A matrix with its shape; \<open>ent A i j\<close> is read only for \<open>i < nrow A\<close> and
  \<open>j < ncol A\<close>.
\<close>

record mat =
  nrow :: nat
  ncol :: nat
  ent :: "nat \<Rightarrow> nat \<Rightarrow> real"

text \<open>\<^verbatim>\<open>J.T\<close>\<close>

definition transpose_mat :: "mat \<Rightarrow> mat" where
  "transpose_mat A = \<lparr>nrow = ncol A, ncol = nrow A, ent = (\<lambda>i j. ent A j i)\<rparr>"

text \<open>\<^verbatim>\<open>A @ B\<close>, which raises when the inner dimensions differ.\<close>

definition matmul :: "mat \<Rightarrow> mat \<Rightarrow> error + mat" where
  "matmul A B =
     (if ncol A = nrow B
        then Inr \<lparr>nrow = nrow A, ncol = ncol B,
                  ent = (\<lambda>i j. \<Sum>k<ncol A. ent A i k * ent B k j)\<rparr>
      else Inl (RuntimeError ''mat1 and mat2 shapes cannot be multiplied''))"

text \<open>\<^verbatim>\<open>view(-1, 1)\<close>: a tensor as a matrix of one column.\<close>

definition column :: "real list \<Rightarrow> mat" where
  "column xs = \<lparr>nrow = length xs, ncol = 1, ent = (\<lambda>i j. xs ! i)\<rparr>"

definition rows_of :: "mat \<Rightarrow> real list list" where
  "rows_of D = map (\<lambda>i. map (ent D i) [0..<ncol D]) [0..<nrow D]"

fun split_with_sizes :: "'a list \<Rightarrow> nat list \<Rightarrow> 'a list list" where
  "split_with_sizes xs [] = []"
| "split_with_sizes xs (n # ns) = take n xs # split_with_sizes (drop n xs) ns"

text \<open>
  \<^verbatim>\<open>torch.split(D, sizes)\<close> along the rows: the sizes must add up to the
  number of rows. Each chunk is given by its numbers in row-major order.
\<close>

definition torch_split :: "mat \<Rightarrow> nat list \<Rightarrow> error + real list list" where
  "torch_split D sizes =
     (if sum_list sizes = nrow D
        then Inr (map concat (split_with_sizes (rows_of D) sizes))
      else Inl (RuntimeError ''split_with_sizes expects split_sizes to sum exactly to the size''))"

text \<open>
  \<^verbatim>\<open>t - o\<close> on tensors of rank one: elementwise, a tensor of one number being
  broadcast; other lengths do not match.
\<close>

definition tsub :: "real list \<Rightarrow> real list \<Rightarrow> error + real list" where
  "tsub t o' =
     (if length t = length o' then Inr (map2 (-) t o')
      else if length t = 1 then Inr (map (\<lambda>y. t ! 0 - y) o')
      else if length o' = 1 then Inr (map (\<lambda>x. x - o' ! 0) t)
      else Inl (RuntimeError ''The size of tensor a must match the size of tensor b''))"

text \<open>
  \<^verbatim>\<open>torch.cat\<close> of the tensors of a list comprehension: the first element
  that raises ends the comprehension; an empty list is refused.
\<close>

fun collect :: "(error + 'a) list \<Rightarrow> error + 'a list" where
  "collect [] = Inr []"
| "collect (Inl e # rs) = Inl e"
| "collect (Inr x # rs) = (case collect rs of Inl e \<Rightarrow> Inl e | Inr xs \<Rightarrow> Inr (x # xs))"

definition cat :: "(error + real list) list \<Rightarrow> error + real list" where
  "cat rs =
     (case collect rs of
        Inl e \<Rightarrow> Inl e
      | Inr xs \<Rightarrow> if xs = [] then Inl (RuntimeError ''torch.cat(): expected a non-empty list of Tensors'')
                  else Inr (concat xs))"

text \<open>\<^verbatim>\<open>E.norm()\<close>: the Euclidean norm.\<close>

definition norm2 :: "real list \<Rightarrow> real" where
  "norm2 E = sqrt (\<Sum>e\<leftarrow>E. e\<^sup>2)"

text \<open>\<^verbatim>\<open>clamp(min, max)\<close> of the tensor library: \<open>min (max x lo) hi\<close>.\<close>

definition clamp :: "real \<Rightarrow> real \<Rightarrow> real \<Rightarrow> real" where
  "clamp x lo hi = min (max x lo) hi"

section \<open>GaussNewton\<close>

text \<open>
  The model is a function of its parameters and the inputs. \<^verbatim>\<open>modjac\<close> comes
  from another module of the package and is a parameter here, as are the
  pseudo-inverse and the Cholesky routines of the tensor library.
\<close>

type_synonym 'i module = "param list \<Rightarrow> 'i \<Rightarrow> model_output"

type_synonym 'i jacobian = "'i module \<Rightarrow> param list \<Rightarrow> 'i \<Rightarrow> mat"

text \<open>
  \<^verbatim>\<open>_residual\<close>, lines 100 to 112. Iterating a target tensor against a tuple
  of outputs pairs its numbers with the outputs; a tuple of targets minus one
  output tensor is a type error.
\<close>

definition residual :: "'i module \<Rightarrow> param list \<Rightarrow> 'i \<Rightarrow> model_output option \<Rightarrow> error + real list" where
  "residual model ps inputs targets =
     (let outputs = model ps inputs in
      case targets of
        Some tg \<Rightarrow>
          (case outputs of
             Tuple os \<Rightarrow>
               (case tg of
                  Tuple ts \<Rightarrow> cat (map (\<lambda>(t, o'). tsub t o') (zip ts os))
                | Single t \<Rightarrow> cat (map (\<lambda>(ti, o'). Inr (map (\<lambda>y. ti - y) o')) (zip t os)))
           | Single o' \<Rightarrow>
               (case tg of
                  Single t \<Rightarrow> tsub t o'
                | Tuple ts \<Rightarrow> Inl TypeError))
      | None \<Rightarrow>
          (case outputs of
             Tuple os \<Rightarrow> cat (map (\<lambda>o'. Inr (map uminus o')) os)
           | Single o' \<Rightarrow> Inr (map uminus o')))"

text \<open>
  Lines 97, 224 and 337: \<^verbatim>\<open>[p.add_(d.view(p.shape)) for p, d in
  zip(pg['params'], D) if p.requires_grad]\<close>. The parameters are changed in
  place one after the other, so the parameters are returned also when a
  \<^verbatim>\<open>view\<close> raises.
\<close>

fun add_slices :: "param list \<Rightarrow> real list list \<Rightarrow> error option \<times> param list" where
  "add_slices [] ds = (None, [])"
| "add_slices (p # ps) [] = (None, p # ps)"
| "add_slices (p # ps) (d # ds) =
     (if requires_grad p then
        if length d = numel p then
          (case add_slices ps ds of
             (r, ps') \<Rightarrow> (r, p\<lparr>data := map2 (+) (data p) d\<rparr> # ps'))
        else (Some (RuntimeError ''shape is invalid for input size''), p # ps)
      else (case add_slices ps ds of (r, ps') \<Rightarrow> (r, p # ps')))"

text \<open>Line 95: \<^verbatim>\<open>(J.T @ J).pinverse() @ (J.T @ E)\<close>.\<close>

definition GN_solve :: "(mat \<Rightarrow> mat) \<Rightarrow> mat \<Rightarrow> mat \<Rightarrow> error + mat" where
  "GN_solve pinverse J E =
     (case matmul (transpose_mat J) J of
        Inl e \<Rightarrow> Inl e
      | Inr JtJ \<Rightarrow>
          (case matmul (transpose_mat J) E of
             Inl e \<Rightarrow> Inl e
           | Inr JtE \<Rightarrow> matmul (pinverse JtJ) JtE))"

text \<open>
  \<^verbatim>\<open>GaussNewton.step\<close>, lines 91 to 98, on the one parameter group that the
  constructor builds from \<^verbatim>\<open>model.parameters()\<close>. The result is the returned
  error, or the exception, together with the parameters after the call.
\<close>

definition GN_step ::
  "(mat \<Rightarrow> mat) \<Rightarrow> 'i jacobian \<Rightarrow> 'i module \<Rightarrow> param list \<Rightarrow> 'i \<Rightarrow> model_output option
     \<Rightarrow> (error + real) \<times> param list" where
  "GN_step pinverse modjac model ps inputs targets =
     (case residual model ps inputs targets of
        Inl e \<Rightarrow> (Inl e, ps)
      | Inr E \<Rightarrow>
          let numels = map numel (filter requires_grad ps);
              J = modjac model ps inputs
          in case GN_solve pinverse J (column E) of
               Inl e \<Rightarrow> (Inl e, ps)
             | Inr D \<Rightarrow>
                 (case torch_split D numels of
                    Inl e \<Rightarrow> (Inl e, ps)
                  | Inr Ds \<Rightarrow>
                      (case add_slices ps Ds of
                         (Some e, ps') \<Rightarrow> (Inl e, ps')
                       | (None, ps') \<Rightarrow>
                           (case residual model ps' inputs targets of
                              Inl e \<Rightarrow> (Inl e, ps')
                            | Inr E' \<Rightarrow> (Inr (norm2 E'), ps')))))"

section \<open>LevenbergMarquardt\<close>

text \<open>The parameter group of the optimizer, with the defaults of line 272.\<close>

record param_group =
  params :: "param list"
  damping :: real
  pg_min :: real
  pg_max :: real

text \<open>
  \<^verbatim>\<open>LevenbergMarquardt.__init__\<close>, lines 269 to 273, with the keyword
  defaults \<^verbatim>\<open>min=1e-6\<close> and \<^verbatim>\<open>max=1e32\<close> given by the caller. The base class
  refuses an empty parameter list.
\<close>

definition LM_init :: "param list \<Rightarrow> real \<Rightarrow> real \<Rightarrow> real \<Rightarrow> error + param_group" where
  "LM_init model_parameters dmp lo hi =
     (if \<not> dmp > 0 then Inl (AssertionError ''Invalid damping factor'')
      else if model_parameters = [] then Inl (ValueError ''optimizer got an empty parameter list'')
      else Inr \<lparr>params = model_parameters, damping = dmp, pg_min = lo, pg_max = hi\<rparr>)"

text \<open>
  Line 334: \<^verbatim>\<open>A.diagonal().add_(pg['damping'] * A.diagonal().clamp(pg['min'],
  pg['max']))\<close>.
\<close>

definition add_damping :: "mat \<Rightarrow> real \<Rightarrow> real \<Rightarrow> real \<Rightarrow> mat" where
  "add_damping A dmp lo hi =
     A\<lparr>ent := (\<lambda>i j. if i = j then ent A i i + dmp * clamp (ent A i i) lo hi else ent A i j)\<rparr>"

text \<open>
  Lines 333 to 335. \<^verbatim>\<open>torch.linalg.cholesky\<close> raises on a matrix that is not
  positive-definite: \<open>cholesky\<close> answers \<open>None\<close> then.
\<close>

definition LM_solve ::
  "(mat \<Rightarrow> mat option) \<Rightarrow> (mat \<Rightarrow> mat \<Rightarrow> mat) \<Rightarrow> param_group \<Rightarrow> mat \<Rightarrow> mat \<Rightarrow> error + mat" where
  "LM_solve cholesky cholesky_solve pg J E =
     (case matmul (transpose_mat J) J of
        Inl e \<Rightarrow> Inl e
      | Inr JtJ \<Rightarrow>
          let A = add_damping JtJ (damping pg) (pg_min pg) (pg_max pg) in
          case matmul (transpose_mat J) E of
            Inl e \<Rightarrow> Inl e
          | Inr JtE \<Rightarrow>
              (case cholesky A of
                 None \<Rightarrow> Inl LinAlgError
               | Some L \<Rightarrow> Inr (cholesky_solve JtE L)))"

text \<open>\<^verbatim>\<open>LevenbergMarquardt.step\<close>, lines 329 to 338.\<close>

definition LM_step ::
  "(mat \<Rightarrow> mat option) \<Rightarrow> (mat \<Rightarrow> mat \<Rightarrow> mat) \<Rightarrow> 'i jacobian \<Rightarrow> 'i module \<Rightarrow> param_group
     \<Rightarrow> 'i \<Rightarrow> model_output option \<Rightarrow> (error + real) \<times> param_group" where
  "LM_step cholesky cholesky_solve modjac model pg inputs targets =
     (case residual model (params pg) inputs targets of
        Inl e \<Rightarrow> (Inl e, pg)
      | Inr E \<Rightarrow>
          let numels = map numel (filter requires_grad (params pg));
              J = modjac model (params pg) inputs
          in case LM_solve cholesky cholesky_solve pg J (column E) of
               Inl e \<Rightarrow> (Inl e, pg)
             | Inr D \<Rightarrow>
                 (case torch_split D numels of
                    Inl e \<Rightarrow> (Inl e, pg)
                  | Inr Ds \<Rightarrow>
                      (case add_slices (params pg) Ds of
                         (Some e, ps') \<Rightarrow> (Inl e, pg\<lparr>params := ps'\<rparr>)
                       | (None, ps') \<Rightarrow>
                           (case residual model ps' inputs targets of
                              Inl e \<Rightarrow> (Inl e, pg\<lparr>params := ps'\<rparr>)
                            | Inr E' \<Rightarrow> (Inr (norm2 E'), pg\<lparr>params := ps'\<rparr>)))))"

section \<open>Collaborators and models for evaluating examples\<close>

text \<open>
  The pseudo-inverse and the Cholesky routines on matrices of one row and one
  column, a Jacobian provider for a model with one learnable number, and the
  model that returns its second parameter.
\<close>

definition pinverse_1x1 :: "mat \<Rightarrow> mat" where
  "pinverse_1x1 A =
     \<lparr>nrow = ncol A, ncol = nrow A,
      ent = (\<lambda>i j. if ent A 0 0 = 0 then 0 else 1 / ent A 0 0)\<rparr>"

definition cholesky_1x1 :: "mat \<Rightarrow> mat option" where
  "cholesky_1x1 A =
     (if 0 < ent A 0 0 then Some \<lparr>nrow = 1, ncol = 1, ent = (\<lambda>i j. sqrt (ent A 0 0))\<rparr>
      else None)"

definition cholesky_solve_1x1 :: "mat \<Rightarrow> mat \<Rightarrow> mat" where
  "cholesky_solve_1x1 b L =
     \<lparr>nrow = nrow b, ncol = ncol b, ent = (\<lambda>i j. ent b i j / (ent L 0 0 * ent L 0 0))\<rparr>"

definition jacobian_one :: "unit jacobian" where
  "jacobian_one model ps inputs = \<lparr>nrow = 1, ncol = 1, ent = (\<lambda>i j. 1)\<rparr>"

definition second_parameter :: "unit module" where
  "second_parameter ps inputs = Single (data (ps ! 1))"

definition frozen_then_trainable :: "param list" where
  "frozen_then_trainable =
     [\<lparr>requires_grad = False, data = [0]\<rparr>, \<lparr>requires_grad = True, data = [0]\<rparr>]"

definition frozen_3_2 :: "param list" where
  "frozen_3_2 =
     [\<lparr>requires_grad = False, data = [0, 0]\<rparr>,
      \<lparr>requires_grad = True, data = [0, 0, 0]\<rparr>,
      \<lparr>requires_grad = True, data = [0, 0]\<rparr>]"

definition zero_output :: "unit module" where
  "zero_output ps inputs = Single [0]"



section \<open>Properties of CSplineR3\<close>

lemma searchsorted_upt:
  "a \<le> k \<Longrightarrow> k \<le> n \<Longrightarrow> searchsorted (map real [a..<n]) (real k) = k - a"
proof (induction "n - a" arbitrary: a)
  case 0
  then show ?case by simp
next
  case (Suc d)
  then have an: "a < n" by simp
  then have split: "[a..<n] = a # [Suc a..<n]" by (rule upt_conv_Cons)
  show ?case
  proof (cases "a < k")
    case True
    have "searchsorted (map real [Suc a..<n]) (real k) = k - Suc a"
      using Suc True by (intro Suc.hyps) auto
    then show ?thesis using True by (simp add: split)
  next
    case False
    with Suc.prems have "a = k" by simp
    then show ?thesis unfolding split by simp
  qed
qed

lemma searchsorted_below: "searchsorted (map real [Suc a..<n]) (real a) = 0"
proof (cases "Suc a < n")
  case True
  then have "[Suc a..<n] = Suc a # [Suc (Suc a)..<n]" by (rule upt_conv_Cons)
  then show ?thesis by simp
next
  case False
  then show ?thesis by simp
qed

lemma tl_breakpoints: "tl (breakpoints n) = map real [1..<n]"
  by (cases n) (simp_all add: breakpoints_def upt_rec [of 0] map_tl [symmetric] del: upt_Suc)


lemma segment_of_breakpoint:
  "k < n \<Longrightarrow> searchsorted (tl (breakpoints n)) (real k) = k - 1"
proof (cases "k = 0")
  case True
  then show ?thesis using searchsorted_below [of 0 n] by (simp add: tl_breakpoints)
next
  case False
  assume "k < n"
  with False show ?thesis
    using searchsorted_upt [of 1 k n] by (simp add: tl_breakpoints)
qed

text \<open>
  C4, as the spec states it, at three control points and the query time 1,
  the interior breakpoint: the lookup of line 72 answers segment 0, the
  segment that ends at the breakpoint, and not segment 1, which starts there.
\<close>

theorem searchsorted_interior_breakpoint_counterexample:
  "searchsorted (tl (breakpoints 3)) (real 1) \<noteq> 1"
  by code_simp

text \<open>
  C4, amended: a query time equal to the breakpoint \<open>k\<close> with \<open>1 \<le> k \<le> N - 1\<close>
  resolves to the segment \<open>k - 1\<close>, which ends at that breakpoint (the left
  side of \<^verbatim>\<open>searchsorted\<close>); for the final query time \<open>N - 1\<close> this is
  \<open>N - 2\<close>, the last valid segment index, so that line 73 reads \<open>x\<close> within
  range and no clamp is needed.
\<close>

theorem searchsorted_breakpoint_segment:
  assumes "1 \<le> k" and "k < n"
  shows "searchsorted (tl (breakpoints n)) (real k) = k - 1
         \<and> searchsorted (tl (breakpoints n)) (real k) + 1 < n
         \<and> searchsorted (tl (breakpoints n)) (real (n - 1)) = n - 2"
proof -
  have "searchsorted (tl (breakpoints n)) (real (n - 1)) = n - 1 - 1"
    using assms by (intro segment_of_breakpoint) simp
  then show ?thesis
    using assms segment_of_breakpoint [of k n] by simp
qed

theorem searchsorted_breakpoint_segment_witness:
  "(1::nat) \<le> 2 \<and> (2::nat) < 4
   \<and> searchsorted (tl (breakpoints 4)) (real 2) = 1
   \<and> searchsorted (tl (breakpoints 4)) (real 3) = 2"
  using searchsorted_breakpoint_segment [of 2 4] by simp








lemma searchsorted_bounded:
  "\<exists>a \<in> set xs. v \<le> a \<Longrightarrow> searchsorted xs v < length xs"
  by (induction xs) auto

lemma arange_unit_fraction:
  assumes "0 < n" and "1 \<le> N"
  shows "arange 0 (real N - 1 + 1 / real n) (1 / real n)
           = Inr (map (\<lambda>i. 0 + real i * (1 / real n)) [0..<(N - 1) * n + 1])"
proof -
  have "(real N - 1 + 1 / real n - 0) / (1 / real n) = real ((N - 1) * n + 1)"
    using assms by (simp add: field_simps of_nat_diff)
  then have "nat \<lceil>(real N - 1 + 1 / real n - 0) / (1 / real n)\<rceil> = (N - 1) * n + 1"
    by (simp only: ceiling_of_nat nat_int)
  moreover have "0 \<le> real N - 1" using assms by simp
  then have "\<not> (0 > real N - 1 + 1 / real n)"
    by (simp add: add_nonneg_nonneg not_less)
  ultimately show ?thesis using assms by (simp add: arange_def)
qed

text \<open>
  With at least two control points, a nonempty batch and a step \<open>1 / n\<close>,
  every query time of line 65 is at most \<open>N - 1\<close> and CSplineR3 returns.
\<close>

lemma CSplineR3_returns:
  assumes "0 < n" and "2 \<le> num points" and "lanes points \<noteq> []"
  shows "\<exists>out. CSplineR3 points (1 / real n) = Inr out"
proof -
  let ?N = "num points"
  define xs where "xs = map (\<lambda>i. 0 + real i * (1 / real n)) [0..<(?N - 1) * n + 1]"
  have ar: "arange 0 (real ?N - 1 + 1 / real n) (1 / real n) = Inr xs"
    unfolding xs_def using assms by (intro arange_unit_fraction) auto
  have ok: "searchsorted (tl (breakpoints ?N)) (0 + real i * (1 / real n)) + 1 < ?N"
    if "i < (?N - 1) * n + 1" for i
  proof -
    have "i \<le> (?N - 1) * n" using that by simp
    then have "real i \<le> real ((?N - 1) * n)" by (simp only: of_nat_le_iff)
    then have "real i * (1 / real n) \<le> real (?N - 1)"
      using assms(1) by (simp add: field_simps)
    moreover have "?N - 1 \<in> set [1..<?N]" using assms(2) by auto
    then have "real (?N - 1) \<in> set (map real [1..<?N])"
      unfolding set_map by (rule imageI)
    ultimately have "searchsorted (map real [1..<?N]) (0 + real i * (1 / real n))
                       < length (map real [1..<?N])"
      by (intro searchsorted_bounded) auto
    then show ?thesis by (simp add: tl_breakpoints)
  qed
  have "\<not> ?N \<le> i + 1" if "i \<in> set (map (searchsorted (tl (breakpoints ?N))) xs)" for i
  proof -
    from that obtain k where "k < (?N - 1) * n + 1"
      and "i = searchsorted (tl (breakpoints ?N)) (0 + real k * (1 / real n))"
      unfolding xs_def by (auto simp del: upt_Suc)
    then show ?thesis using ok [of k] by simp
  qed
  then have "\<forall>i \<in> set (map (searchsorted (tl (breakpoints ?N))) xs). \<not> ?N \<le> i + 1"
    by blast
  then show ?thesis
    using assms(2,3) by (simp add: CSplineR3_def ar Let_def)
qed

section \<open>Properties of BSplineSE3\<close>

lemma bspline_weights:
  "matvec bspline_B (powers u) =
     [(5 + 3 * u - 3 * u\<^sup>2 + u ^ 3) / 6, (1 + 3 * u + 3 * u\<^sup>2 - 2 * u ^ 3) / 6, u ^ 3 / 6]"
  by (simp add: matvec_def bspline_B_def powers_def upt_rec [of _ 4] upt_rec [of _ "Suc _"]
        numeral_eq_Suc field_simps)

lemma concat_blocks_nth:
  "\<forall>xs \<in> set xss. length xs = K \<Longrightarrow> i < length xss \<Longrightarrow> k < K
     \<Longrightarrow> concat xss ! (i * K + k) = xss ! i ! k"
proof (induction xss arbitrary: i)
  case Nil
  then show ?case by simp
next
  case (Cons xs xss)
  show ?case
  proof (cases i)
    case 0
    then show ?thesis using Cons.prems by (simp add: nth_append)
  next
    case (Suc i')
    then have "concat xss ! (i' * K + k) = xss ! i' ! k"
      using Cons.prems by (intro Cons.IH) auto
    then show ?thesis using Cons.prems Suc by (simp add: nth_append)
  qed
qed

lemma concat_blocks_length:
  "\<forall>xs \<in> set xss. length xs = K \<Longrightarrow> length (concat xss) = length xss * K"
  by (induction xss) auto

lemma pad_length: "length (pad l) = length l + 2"
  by (simp add: pad_def)

lemma interPose_window:
  assumes "i < n" "i + 3 < length P"
  shows "interPose G (take n P ! i) (take 4 (drop i P)) (matvec bspline_B (powers u))
         = spec_window_pose G (P ! i) (P ! (i + 1)) (P ! (i + 2)) (P ! (i + 3)) u"
  using assms by (simp add: interPose_def spec_window_pose_def bspline_weights Let_def)

lemma BSplineSE3_lane_nth:
  assumes "i < M" "k < K" "M + 3 \<le> length P"
  shows "concat (map (\<lambda>i. map (\<lambda>k. interPose G (take M P ! i)
                                   (map (\<lambda>i. take 4 (drop i P)) [0..<M] ! i)
                                   (map (\<lambda>k. matvec bspline_B (powers (ts ! k))) [0..<K] ! k))
                              [0..<K]) [0..<M]) ! (i * K + k)
         = spec_window_pose G (P ! i) (P ! (i + 1)) (P ! (i + 2)) (P ! (i + 3)) (ts ! k)"
proof -
  let ?f = "\<lambda>i k. interPose G (take M P ! i)
                                   (map (\<lambda>i. take 4 (drop i P)) [0..<M] ! i)
                                   (map (\<lambda>k. matvec bspline_B (powers (ts ! k))) [0..<K] ! k)"
  let ?xss = "map (\<lambda>i. map (?f i) [0..<K]) [0..<M]"
  have "concat ?xss ! (i * K + k) = ?xss ! i ! k"
    using assms by (intro concat_blocks_nth) auto
  also have "\<dots> = ?f i k" using assms by simp
  also have "\<dots> = spec_window_pose G (P ! i) (P ! (i + 1)) (P ! (i + 2)) (P ! (i + 3)) (ts ! k)"
    using assms interPose_window [of i M P G "ts ! k"] by simp
  finally show ?thesis .
qed

lemma BSplineSE3_lane_length:
  "length (concat (map (\<lambda>i. map (f i) [0..<K]) [0..<M])) = M * K"
  using concat_blocks_length [of "map (\<lambda>i. map (f i) [0..<K]) [0..<M]" K] by simp

lemma BSplineSE3_returns:
  assumes "is_SE3 input_poses" "shape time = [1, 1, K]" "0 < K" "2 \<le> num input_poses"
  shows "BSplineSE3 G input_poses time =
     Inr (map (\<lambda>l. concat (map (\<lambda>i. map (\<lambda>k. interPose G (take (num input_poses - 1) l ! i)
                 (map (\<lambda>i. take 4 (drop i l)) [0..<num input_poses - 1] ! i)
                 (map (\<lambda>k. matvec bspline_B (powers (flat time ! k))) [0..<K] ! k))
               [0..<K]) [0..<num input_poses - 1]))
          (map pad (lanes input_poses)))"
  using assms by (simp add: BSplineSE3_def Let_def)

text \<open>
  C1, as the spec states it, at two valid control poses and a query-time
  sequence of length \<open>K = 0\<close>, a time tensor of shape \<open>[1, 1, 0]\<close>: no
  result of shape \<open>[B, 0, 7]\<close> is returned, the reshape of line 205 raises.
\<close>

theorem BSplineSE3_empty_time_counterexample:
  "BSplineSE3 shift_group \<lparr>num = 2, lanes = [[shift 0 0 0, shift 1 0 0]]\<rparr>
     \<lparr>shape = [1, 1, 0], flat = []\<rparr>
   = Inl (RuntimeError ''cannot reshape tensor of 0 elements into shape [-1, 0, 7]'')"
  by (simp add: BSplineSE3_def is_SE3_def unit_quaternion_def shift_def)

text \<open>
  C1, amended: for a batch of \<open>N \<ge> 2\<close> valid control poses per lane and a time
  tensor of shape \<open>[1, 1, K]\<close> with \<open>K \<ge> 1\<close>, BSplineSE3 returns; every lane is
  padded with its first and its last pose to \<open>N + 2\<close> poses; the result has
  one lane per batch entry, of \<open>(N - 1) \<cdot> K\<close> poses; and the pose at position
  \<open>i \<cdot> K + k\<close>, for the window \<open>i < N - 1\<close> of four consecutive padded poses
  and the \<open>k\<close>-th query time \<open>u\<close>, is the cumulative product that the spec
  prescribes.
\<close>

theorem BSplineSE3_cumulative_product:
  assumes "wf_batched input_poses" and "is_SE3 input_poses"
    and "shape time = [1, 1, K]" and "1 \<le> K" and "2 \<le> num input_poses"
  shows "\<exists>out. BSplineSE3 G input_poses time = Inr out
           \<and> length out = length (lanes input_poses)
           \<and> (\<forall>b < length (lanes input_poses).
                length (pad (lanes input_poses ! b)) = num input_poses + 2
              \<and> pad (lanes input_poses ! b)
                  = [lanes input_poses ! b ! 0] @ lanes input_poses ! b
                    @ [lanes input_poses ! b ! (num input_poses - 1)]
              \<and> length (out ! b) = (num input_poses - 1) * K
              \<and> (\<forall>i < num input_poses - 1. \<forall>k < K.
                    out ! b ! (i * K + k)
                      = spec_window_pose G (pad (lanes input_poses ! b) ! i)
                          (pad (lanes input_poses ! b) ! (i + 1))
                          (pad (lanes input_poses ! b) ! (i + 2))
                          (pad (lanes input_poses ! b) ! (i + 3)) (flat time ! k)))"
proof -
  let ?N = "num input_poses"
  let ?lane = "\<lambda>l. concat (map (\<lambda>i. map (\<lambda>k. interPose G (take (?N - 1) l ! i)
                 (map (\<lambda>i. take 4 (drop i l)) [0..<?N - 1] ! i)
                 (map (\<lambda>k. matvec bspline_B (powers (flat time ! k))) [0..<K] ! k))
               [0..<K]) [0..<?N - 1])"
  let ?out = "map ?lane (map pad (lanes input_poses))"
  have K: "0 < K" using assms(4) by simp
  have ret: "BSplineSE3 G input_poses time = Inr ?out"
    using assms(2,3) K assms(5) by (rule BSplineSE3_returns)
  have lane: "length (pad (lanes input_poses ! b)) = ?N + 2
              \<and> pad (lanes input_poses ! b)
                  = [lanes input_poses ! b ! 0] @ lanes input_poses ! b
                    @ [lanes input_poses ! b ! (?N - 1)]
              \<and> length (?out ! b) = (?N - 1) * K
              \<and> (\<forall>i < ?N - 1. \<forall>k < K.
                    ?out ! b ! (i * K + k)
                      = spec_window_pose G (pad (lanes input_poses ! b) ! i)
                          (pad (lanes input_poses ! b) ! (i + 1))
                          (pad (lanes input_poses ! b) ! (i + 2))
                          (pad (lanes input_poses ! b) ! (i + 3)) (flat time ! k))"
    if b: "b < length (lanes input_poses)" for b
  proof -
    let ?l = "lanes input_poses ! b"
    have len: "length ?l = ?N"
      using assms(1) b by (simp add: wf_batched_def list_all_length)
    then have ne: "?l \<noteq> []" using assms(5) by auto
    have plen: "length (pad ?l) = ?N + 2" by (simp add: pad_length len)
    have pad_eq: "pad ?l = [?l ! 0] @ ?l @ [?l ! (?N - 1)]"
      using ne len by (simp add: pad_def last_conv_nth)
    have outb: "?out ! b = ?lane (pad ?l)" using b by simp
    have olen: "length (?out ! b) = (?N - 1) * K"
      unfolding outb by (rule BSplineSE3_lane_length)
    have nth: "?out ! b ! (i * K + k)
                 = spec_window_pose G (pad ?l ! i) (pad ?l ! (i + 1)) (pad ?l ! (i + 2))
                     (pad ?l ! (i + 3)) (flat time ! k)"
      if "i < ?N - 1" "k < K" for i k
      unfolding outb using that plen by (intro BSplineSE3_lane_nth) auto
    show ?thesis using plen pad_eq olen nth by blast
  qed
  show ?thesis
  proof (intro exI conjI)
    show "BSplineSE3 G input_poses time = Inr ?out" by (rule ret)
    show "length ?out = length (lanes input_poses)" by simp
    show "\<forall>b<length (lanes input_poses).
       length (pad (lanes input_poses ! b)) = num input_poses + 2 \<and>
       pad (lanes input_poses ! b) =
       [lanes input_poses ! b ! 0] @ lanes input_poses ! b
         @ [lanes input_poses ! b ! (num input_poses - 1)] \<and>
       length (?out ! b) = (num input_poses - 1) * K \<and>
       (\<forall>i<num input_poses - 1.
           \<forall>k<K.
              ?out ! b ! (i * K + k) =
              spec_window_pose G (pad (lanes input_poses ! b) ! i)
               (pad (lanes input_poses ! b) ! (i + 1))
               (pad (lanes input_poses ! b) ! (i + 2)) (pad (lanes input_poses ! b) ! (i + 3))
               (flat time ! k))"
      using lane by blast
  qed
qed

theorem BSplineSE3_cumulative_product_witness:
  "wf_batched \<lparr>num = 2, lanes = [[shift 0 0 0, shift 1 0 0]]\<rparr>
   \<and> is_SE3 \<lparr>num = 2, lanes = [[shift 0 0 0, shift 1 0 0]]\<rparr>
   \<and> (\<exists>out. BSplineSE3 shift_group \<lparr>num = 2, lanes = [[shift 0 0 0, shift 1 0 0]]\<rparr>
               \<lparr>shape = [1, 1, 2], flat = [0, 1 / 2]\<rparr> = Inr out
            \<and> length (out ! 0) = 2
            \<and> out ! 0 ! 1 = spec_window_pose shift_group (shift 0 0 0) (shift 0 0 0)
                               (shift 1 0 0) (shift 1 0 0) (1 / 2))"
proof -
  let ?P = "\<lparr>num = 2, lanes = [[shift 0 0 0, shift 1 0 0]]\<rparr>"
  let ?T = "\<lparr>shape = [1, 1, 2], flat = [0, 1 / 2]\<rparr>"
  have h1: "wf_batched ?P" by (simp add: wf_batched_def)
  have h2: "is_SE3 ?P" by (simp add: is_SE3_def unit_quaternion_def shift_def)
  have h3: "shape ?T = [1, 1, 2]" and h4: "(1::nat) \<le> 2" and h5: "2 \<le> num ?P" by simp_all
  from BSplineSE3_cumulative_product [OF h1 h2 h3 h4 h5, of shift_group]
  obtain out where out: "BSplineSE3 shift_group ?P ?T = Inr out"
    and lane: "\<forall>b < length (lanes ?P).
                length (pad (lanes ?P ! b)) = num ?P + 2
              \<and> pad (lanes ?P ! b) = [lanes ?P ! b ! 0] @ lanes ?P ! b @ [lanes ?P ! b ! (num ?P - 1)]
              \<and> length (out ! b) = (num ?P - 1) * 2
              \<and> (\<forall>i < num ?P - 1. \<forall>k < 2.
                    out ! b ! (i * 2 + k)
                      = spec_window_pose shift_group (pad (lanes ?P ! b) ! i)
                          (pad (lanes ?P ! b) ! (i + 1))
                          (pad (lanes ?P ! b) ! (i + 2))
                          (pad (lanes ?P ! b) ! (i + 3)) (flat ?T ! k))"
    by blast
  from lane have l0: "length (out ! 0) = 2"
    and n0: "\<forall>i < 1. \<forall>k < 2. out ! 0 ! (i * 2 + k)
                      = spec_window_pose shift_group (pad [shift 0 0 0, shift 1 0 0] ! i)
                          (pad [shift 0 0 0, shift 1 0 0] ! (i + 1))
                          (pad [shift 0 0 0, shift 1 0 0] ! (i + 2))
                          (pad [shift 0 0 0, shift 1 0 0] ! (i + 3)) ([0, 1 / 2] ! k)"
    by simp_all
  from n0 have "out ! 0 ! 1 = spec_window_pose shift_group (shift 0 0 0) (shift 0 0 0)
                               (shift 1 0 0) (shift 1 0 0) (1 / 2)"
    by (simp add: pad_def)
  with h1 h2 out l0 show ?thesis by blast
qed

text \<open>
  C6, as the spec states it, at a single valid control pose and a time tensor
  of shape \<open>[1, 1, 1]\<close>: both assertions pass, the weights of lines 186 to 194
  are computed, and the call fails at line 195 with the error of
  \<^verbatim>\<open>torch.stack\<close> on an empty list of windows. No precondition is reported.
\<close>

theorem BSplineSE3_single_pose_counterexample:
  "BSplineSE3 shift_group \<lparr>num = 1, lanes = [[shift 0 0 0]]\<rparr>
     \<lparr>shape = [1, 1, 1], flat = [0]\<rparr>
   = Inl (RuntimeError ''stack expects a non-empty TensorList'')"
  by (simp add: BSplineSE3_def is_SE3_def unit_quaternion_def shift_def)

text \<open>
  C6, amended. Poses that fail \<^verbatim>\<open>is_SE3\<close> are rejected by the assertion of
  line 179. With valid poses, a time tensor of rank two or more whose first
  or second dimension is not 1 is rejected by the assertion of line 180,
  before any computation; a time tensor of rank below two fails in line 180
  with the index error of reading its shape, not with the assertion; a time
  tensor of rank two and shape \<open>[1, 1]\<close> is not rejected: with two or more
  poses it is interpolated as the one query time of the shape \<open>[1, 1, 1]\<close>.
  The number of control poses is not checked: with a time shape that passes
  line 180, no pose fails with the index error of the padding in line 181,
  and, for a time tensor of rank two or three, one pose fails with the error
  of \<^verbatim>\<open>torch.stack\<close> in line 195.
\<close>

theorem BSplineSE3_malformed_input:
  "(\<not> is_SE3 input_poses \<longrightarrow>
      BSplineSE3 G input_poses time = Inl (AssertionError ''The input poses are not SE3Type.''))
   \<and> (is_SE3 input_poses \<and> length (shape time) < 2 \<longrightarrow>
      BSplineSE3 G input_poses time = Inl IndexError)
   \<and> (is_SE3 input_poses \<and> 2 \<le> length (shape time)
        \<and> (shape time ! 0 \<noteq> 1 \<or> shape time ! 1 \<noteq> 1) \<longrightarrow>
      BSplineSE3 G input_poses time = Inl (AssertionError ''The time has wrong shape.''))
   \<and> (is_SE3 input_poses \<and> shape time = [1, 1] \<and> 2 \<le> num input_poses \<longrightarrow>
      BSplineSE3 G input_poses time = BSplineSE3 G input_poses (time\<lparr>shape := [1, 1, 1]\<rparr>)
      \<and> (\<exists>out. BSplineSE3 G input_poses time = Inr out))
   \<and> (is_SE3 input_poses \<and> 2 \<le> length (shape time)
        \<and> shape time ! 0 = 1 \<and> shape time ! 1 = 1 \<and> num input_poses = 0 \<longrightarrow>
      BSplineSE3 G input_poses time = Inl IndexError)
   \<and> (is_SE3 input_poses \<and> 2 \<le> length (shape time) \<and> length (shape time) \<le> 3
        \<and> shape time ! 0 = 1 \<and> shape time ! 1 = 1 \<and> num input_poses = 1 \<longrightarrow>
      BSplineSE3 G input_poses time = Inl (RuntimeError ''stack expects a non-empty TensorList''))"
  by (auto simp: BSplineSE3_def Let_def)

theorem BSplineSE3_malformed_input_witness:
  "\<not> is_SE3 \<lparr>num = 1, lanes = [[(shift 0 0 0)\<lparr>qw := 2\<rparr>]]\<rparr>
   \<and> BSplineSE3 shift_group \<lparr>num = 1, lanes = [[(shift 0 0 0)\<lparr>qw := 2\<rparr>]]\<rparr>
        \<lparr>shape = [1, 1, 1], flat = [0]\<rparr>
      = Inl (AssertionError ''The input poses are not SE3Type.'')
   \<and> is_SE3 \<lparr>num = 2, lanes = [[shift 0 0 0, shift 1 0 0]]\<rparr>
   \<and> BSplineSE3 shift_group \<lparr>num = 2, lanes = [[shift 0 0 0, shift 1 0 0]]\<rparr>
        \<lparr>shape = [2], flat = [0, 1 / 2]\<rparr>
      = Inl IndexError
   \<and> BSplineSE3 shift_group \<lparr>num = 2, lanes = [[shift 0 0 0, shift 1 0 0]]\<rparr>
        \<lparr>shape = [2, 1, 1], flat = [0, 0]\<rparr>
      = Inl (AssertionError ''The time has wrong shape.'')
   \<and> (\<exists>out. BSplineSE3 shift_group \<lparr>num = 2, lanes = [[shift 0 0 0, shift 1 0 0]]\<rparr>
        \<lparr>shape = [1, 1], flat = [1 / 2]\<rparr> = Inr out)
   \<and> is_SE3 \<lparr>num = 0, lanes = [[]]\<rparr>
   \<and> BSplineSE3 shift_group \<lparr>num = 0, lanes = [[]]\<rparr>
        \<lparr>shape = [1, 1, 1], flat = [0]\<rparr>
      = Inl IndexError
   \<and> is_SE3 \<lparr>num = 1, lanes = [[shift 0 0 0]]\<rparr>
   \<and> BSplineSE3 shift_group \<lparr>num = 1, lanes = [[shift 0 0 0]]\<rparr>
        \<lparr>shape = [1, 1, 1], flat = [0]\<rparr>
      = Inl (RuntimeError ''stack expects a non-empty TensorList'')"
proof -
  have a: "\<not> is_SE3 \<lparr>num = 1, lanes = [[(shift 0 0 0)\<lparr>qw := 2\<rparr>]]\<rparr>"
    by (simp add: is_SE3_def unit_quaternion_def shift_def)
  have b: "is_SE3 \<lparr>num = 2, lanes = [[shift 0 0 0, shift 1 0 0]]\<rparr>"
    by (simp add: is_SE3_def unit_quaternion_def shift_def)
  have c: "is_SE3 \<lparr>num = 0, lanes = [[]]\<rparr>"
    by (simp add: is_SE3_def)
  have d: "is_SE3 \<lparr>num = 1, lanes = [[shift 0 0 0]]\<rparr>"
    by (simp add: is_SE3_def unit_quaternion_def shift_def)
  have s: "shape \<lparr>shape = [1, 1], flat = [1 / 2]\<rparr> = [1, 1]"
    and n: "2 \<le> num \<lparr>num = 2, lanes = [[shift 0 0 0, shift 1 0 0]]\<rparr>"
    by simp_all
  have e: "\<exists>out. BSplineSE3 shift_group \<lparr>num = 2, lanes = [[shift 0 0 0, shift 1 0 0]]\<rparr>
        \<lparr>shape = [1, 1], flat = [1 / 2]\<rparr> = Inr out"
    using b s n
      BSplineSE3_malformed_input [of "\<lparr>num = 2, lanes = [[shift 0 0 0, shift 1 0 0]]\<rparr>"
        shift_group "\<lparr>shape = [1, 1], flat = [1 / 2]\<rparr>"]
    by blast
  show ?thesis
    using a b c d e
      BSplineSE3_malformed_input [of "\<lparr>num = 1, lanes = [[(shift 0 0 0)\<lparr>qw := 2\<rparr>]]\<rparr>"
        shift_group "\<lparr>shape = [1, 1, 1], flat = [0]\<rparr>"]
      BSplineSE3_malformed_input [of "\<lparr>num = 2, lanes = [[shift 0 0 0, shift 1 0 0]]\<rparr>"
        shift_group "\<lparr>shape = [2], flat = [0, 1 / 2]\<rparr>"]
      BSplineSE3_malformed_input [of "\<lparr>num = 2, lanes = [[shift 0 0 0, shift 1 0 0]]\<rparr>"
        shift_group "\<lparr>shape = [2, 1, 1], flat = [0, 0]\<rparr>"]
      BSplineSE3_malformed_input [of "\<lparr>num = 0, lanes = [[]]\<rparr>"
        shift_group "\<lparr>shape = [1, 1, 1], flat = [0]\<rparr>"]
      BSplineSE3_malformed_input [of "\<lparr>num = 1, lanes = [[shift 0 0 0]]\<rparr>"
        shift_group "\<lparr>shape = [1, 1, 1], flat = [0]\<rparr>"]
    by simp
qed

text \<open>
  C7: a call in which some control pose has a quaternion part that is not of
  unit norm fails the assertion of line 179; no pose is returned. The check
  is \<open>is_SE3\<close> as the spec describes it.
\<close>

theorem BSplineSE3_rejects_non_unit_quaternion:
  assumes "b < length (lanes input_poses)" and "j < length (lanes input_poses ! b)"
    and "\<not> unit_quaternion (lanes input_poses ! b ! j)"
  shows "BSplineSE3 G input_poses time
           = Inl (AssertionError ''The input poses are not SE3Type.'')"
proof -
  have "\<not> is_SE3 input_poses"
    using assms by (auto simp: is_SE3_def list_all_length)
  then show ?thesis by (simp add: BSplineSE3_def)
qed

theorem BSplineSE3_rejects_non_unit_quaternion_witness:
  "\<not> unit_quaternion ((shift 1 0 0)\<lparr>qw := 2\<rparr>)
   \<and> BSplineSE3 shift_group \<lparr>num = 2, lanes = [[shift 0 0 0, (shift 1 0 0)\<lparr>qw := 2\<rparr>]]\<rparr>
        \<lparr>shape = [1, 1, 1], flat = [0]\<rparr>
      = Inl (AssertionError ''The input poses are not SE3Type.'')"
proof -
  let ?P = "\<lparr>num = 2, lanes = [[shift 0 0 0, (shift 1 0 0)\<lparr>qw := 2\<rparr>]]\<rparr>"
  have h1: "0 < length (lanes ?P)" and h2: "1 < length (lanes ?P ! 0)" by simp_all
  have h3: "\<not> unit_quaternion (lanes ?P ! 0 ! 1)"
    by (simp add: unit_quaternion_def shift_def)
  show ?thesis
    using h3 BSplineSE3_rejects_non_unit_quaternion [OF h1 h2 h3, of shift_group
        "\<lparr>shape = [1, 1, 1], flat = [0]\<rparr>"]
    by simp
qed

section \<open>Properties of the optimizer steps\<close>

subsection \<open>The in-place update\<close>

lemma add_slices_length: "length (snd (add_slices ps ds)) = length ps"
proof (induction ps ds rule: add_slices.induct)
  case (3 p ps d ds)
  then show ?case by (cases "requires_grad p") (auto split: prod.splits)
qed simp_all

lemma add_slices_frozen:
  "i < length ps \<Longrightarrow> \<not> requires_grad (ps ! i) \<Longrightarrow> snd (add_slices ps ds) ! i = ps ! i"
proof (induction ps ds arbitrary: i rule: add_slices.induct)
  case (1 ds)
  then show ?case by simp
next
  case (2 p ps)
  then show ?case by simp
next
  case (3 p ps d ds)
  show ?case
  proof (cases i)
    case 0
    then show ?thesis using "3.prems" by (auto split: prod.splits)
  next
    case (Suc i')
    then show ?thesis using 3 by (cases "requires_grad p") (auto split: prod.splits)
  qed
qed

text \<open>
  When every parameter requires gradients and every slice has the element
  count of its parameter, each parameter receives its own slice.
\<close>

lemma add_slices_all_trainable:
  assumes "list_all requires_grad ps" and "list_all2 (\<lambda>p d. length d = numel p) ps ds"
  shows "add_slices ps ds = (None, map2 (\<lambda>p d. p\<lparr>data := map2 (+) (data p) d\<rparr>) ps ds)"
  using assms(2,1) by (induction rule: list_all2_induct) auto

lemma split_with_sizes_lengths:
  "sum_list ns \<le> length xs \<Longrightarrow> map length (split_with_sizes xs ns) = ns"
  by (induction ns arbitrary: xs) auto

lemma split_with_sizes_concat:
  "sum_list ns = length xs \<Longrightarrow> concat (split_with_sizes xs ns) = xs"
proof (induction ns arbitrary: xs)
  case Nil
  then show ?case by simp
next
  case (Cons n ns)
  then have "concat (split_with_sizes (drop n xs) ns) = drop n xs"
    by (intro Cons.IH) simp
  then show ?case by simp
qed

lemma split_with_sizes_subset:
  "c \<in> set (split_with_sizes xs ns) \<Longrightarrow> set c \<subseteq> set xs"
proof (induction ns arbitrary: xs)
  case Nil
  then show ?case by simp
next
  case (Cons n ns)
  then show ?case
    using set_take_subset [of n xs] set_drop_subset [of n xs] by fastforce
qed

lemma GN_step_params:
  "snd (GN_step pinverse modjac model ps inputs targets) = ps
   \<or> (\<exists>Ds. snd (GN_step pinverse modjac model ps inputs targets) = snd (add_slices ps Ds))"
  unfolding GN_step_def Let_def
  by (auto split: sum.splits prod.splits option.splits) (metis snd_conv)+

lemma LM_step_params:
  "snd (LM_step cholesky cholesky_solve modjac model pg inputs targets) = pg
   \<or> (\<exists>Ds. snd (LM_step cholesky cholesky_solve modjac model pg inputs targets)
          = pg\<lparr>params := snd (add_slices (params pg) Ds)\<rparr>)"
  unfolding LM_step_def Let_def
  by (auto split: sum.splits prod.splits option.splits) (metis snd_conv)+

lemma LM_step_damping:
  "damping (snd (LM_step cholesky cholesky_solve modjac model pg inputs targets)) = damping pg"
  using LM_step_params [of cholesky cholesky_solve modjac model pg inputs targets] by auto

text \<open>
  C10: a step of either optimizer, whether it returns or raises, leaves every
  parameter with \<^verbatim>\<open>requires_grad = False\<close> as it was.
\<close>

theorem step_keeps_frozen_parameters:
  assumes "i < length ps" and "\<not> requires_grad (ps ! i)" and "params pg = ps"
  shows "snd (GN_step pinverse modjac model ps inputs targets) ! i = ps ! i
         \<and> params (snd (LM_step cholesky cholesky_solve modjac model pg inputs targets)) ! i
             = ps ! i"
proof
  show "snd (GN_step pinverse modjac model ps inputs targets) ! i = ps ! i"
    using GN_step_params [of pinverse modjac model ps inputs targets] assms(1,2)
    by (auto simp: add_slices_frozen)
  show "params (snd (LM_step cholesky cholesky_solve modjac model pg inputs targets)) ! i
          = ps ! i"
    using LM_step_params [of cholesky cholesky_solve modjac model pg inputs targets] assms
    by (auto simp: add_slices_frozen)
qed

theorem step_keeps_frozen_parameters_witness:
  "(1::nat) < length [\<lparr>requires_grad = True, data = [0]\<rparr>, \<lparr>requires_grad = False, data = [5]\<rparr>]
   \<and> \<not> requires_grad ([\<lparr>requires_grad = True, data = [0]\<rparr>,
                         \<lparr>requires_grad = False, data = [5]\<rparr>] ! 1)
   \<and> snd (GN_step pinverse_1x1 jacobian_one (\<lambda>ps x. Single (data (ps ! 0)))
            [\<lparr>requires_grad = True, data = [0]\<rparr>, \<lparr>requires_grad = False, data = [5]\<rparr>]
            () (Some (Single [4]))) ! 1
       = \<lparr>requires_grad = False, data = [5]\<rparr>
   \<and> params (snd (LM_step cholesky_1x1 cholesky_solve_1x1 jacobian_one
                    (\<lambda>ps x. Single (data (ps ! 0)))
                    \<lparr>params = [\<lparr>requires_grad = True, data = [0]\<rparr>,
                               \<lparr>requires_grad = False, data = [5]\<rparr>],
                     damping = 3, pg_min = 1 / 10 ^ 6, pg_max = 10 ^ 32\<rparr>
                    () (Some (Single [4])))) ! 1
       = \<lparr>requires_grad = False, data = [5]\<rparr>"
proof -
  let ?ps = "[\<lparr>requires_grad = True, data = [0]\<rparr>, \<lparr>requires_grad = False, data = [5]\<rparr>]"
  let ?pg = "\<lparr>params = ?ps, damping = 3, pg_min = 1 / 10 ^ 6, pg_max = 10 ^ 32\<rparr>"
  have h1: "1 < length ?ps" and h2: "\<not> requires_grad (?ps ! 1)" and h3: "params ?pg = ?ps"
    by simp_all
  show ?thesis
    using h1 h2 step_keeps_frozen_parameters [OF h1 h2 h3, of pinverse_1x1 jacobian_one
        "\<lambda>ps x. Single (data (ps ! 0))" "()" "Some (Single [4])" cholesky_1x1 cholesky_solve_1x1]
    by simp
qed

subsection \<open>Construction of LevenbergMarquardt\<close>

text \<open>
  C8: with a damping value \<open>d \<le> 0\<close>, the constructor raises the assertion
  error; every optimizer that the constructor does return has a positive
  damping value, and a step leaves that value as it is.
\<close>

theorem LM_init_rejects_nonpositive_damping:
  "(dmp \<le> 0 \<longrightarrow>
      LM_init model_parameters dmp lo hi = Inl (AssertionError ''Invalid damping factor''))
   \<and> (\<forall>pg. LM_init model_parameters dmp lo hi = Inr pg \<longrightarrow>
         0 < damping pg
       \<and> 0 < damping (snd (LM_step cholesky cholesky_solve modjac model pg inputs targets)))"
  by (auto simp: LM_init_def LM_step_damping split: if_splits)

theorem LM_init_rejects_nonpositive_damping_witness:
  "(- 1::real) \<le> 0
   \<and> LM_init frozen_then_trainable (- 1) (1 / 10 ^ 6) (10 ^ 32)
       = Inl (AssertionError ''Invalid damping factor'')
   \<and> LM_init frozen_then_trainable 3 (1 / 10 ^ 6) (10 ^ 32)
       = Inr \<lparr>params = frozen_then_trainable, damping = 3, pg_min = 1 / 10 ^ 6, pg_max = 10 ^ 32\<rparr>
   \<and> 0 < damping (snd (LM_step cholesky_1x1 cholesky_solve_1x1 jacobian_one second_parameter
                         \<lparr>params = frozen_then_trainable, damping = 3,
                          pg_min = 1 / 10 ^ 6, pg_max = 10 ^ 32\<rparr> () (Some (Single [4]))))"
proof -
  have h: "LM_init frozen_then_trainable 3 (1 / 10 ^ 6) (10 ^ 32)
       = Inr \<lparr>params = frozen_then_trainable, damping = 3, pg_min = 1 / 10 ^ 6, pg_max = 10 ^ 32\<rparr>"
    by (simp add: LM_init_def frozen_then_trainable_def)
  show ?thesis
    using h
      LM_init_rejects_nonpositive_damping [of "- 1" frozen_then_trainable "1 / 10 ^ 6" "10 ^ 32"
        cholesky_1x1 cholesky_solve_1x1 jacobian_one second_parameter "()" "Some (Single [4])"]
      LM_init_rejects_nonpositive_damping [of 3 frozen_then_trainable "1 / 10 ^ 6" "10 ^ 32"
        cholesky_1x1 cholesky_solve_1x1 jacobian_one second_parameter "()" "Some (Single [4])"]
    by simp
qed

subsection \<open>The Levenberg-Marquardt system\<close>

lemma matmul_transpose_self:
  "matmul (transpose_mat J) J
     = Inr \<lparr>nrow = ncol J, ncol = ncol J, ent = (\<lambda>i j. \<Sum>k<nrow J. ent J k i * ent J k j)\<rparr>"
  by (simp add: matmul_def transpose_mat_def)

text \<open>
  The matrix that is factored: \<open>J\<^sup>T J\<close> with
  \<open>damping \<cdot> clamp (diag (J\<^sup>T J), min, max)\<close> added on its diagonal.
\<close>

lemma LM_damped_matrix:
  "ent (add_damping \<lparr>nrow = ncol J, ncol = ncol J,
                      ent = (\<lambda>i j. \<Sum>k<nrow J. ent J k i * ent J k j)\<rparr> dmp lo hi) i j
     = (\<Sum>k<nrow J. ent J k i * ent J k j)
       + (if i = j then dmp * min (max (\<Sum>k<nrow J. (ent J k i)\<^sup>2) lo) hi else 0)"
  by (simp add: add_damping_def clamp_def power2_eq_square)

lemma LM_solve_cases:
  "LM_solve cholesky cholesky_solve pg J E =
     (if nrow J \<noteq> nrow E then Inl (RuntimeError ''mat1 and mat2 shapes cannot be multiplied'')
      else case cholesky (add_damping \<lparr>nrow = ncol J, ncol = ncol J,
                      ent = (\<lambda>i j. \<Sum>k<nrow J. ent J k i * ent J k j)\<rparr>
                      (damping pg) (pg_min pg) (pg_max pg)) of
             None \<Rightarrow> Inl LinAlgError
           | Some L \<Rightarrow> Inr (cholesky_solve
                \<lparr>nrow = ncol J, ncol = ncol E, ent = (\<lambda>i j. \<Sum>k<nrow J. ent J k i * ent E k j)\<rparr> L))"
  by (cases "nrow J = nrow E")
     (simp_all add: LM_solve_def matmul_def transpose_mat_def Let_def split: option.splits)

text \<open>
  When the Cholesky factorization fails, the step raises and changes nothing:
  there is no second attempt with a pseudo-inverse.
\<close>

lemma LM_step_no_fallback:
  assumes "residual model (params pg) inputs targets = Inr E"
    and "nrow (modjac model (params pg) inputs) = length E"
    and "cholesky (add_damping \<lparr>nrow = ncol (modjac model (params pg) inputs),
                      ncol = ncol (modjac model (params pg) inputs),
                      ent = (\<lambda>i j. \<Sum>k<length E. ent (modjac model (params pg) inputs) k i
                                                * ent (modjac model (params pg) inputs) k j)\<rparr>
                      (damping pg) (pg_min pg) (pg_max pg)) = None"
  shows "LM_step cholesky cholesky_solve modjac model pg inputs targets = (Inl LinAlgError, pg)"
  using assms by (simp add: LM_step_def LM_solve_cases Let_def column_def)

subsection \<open>A frozen parameter in front of a trainable one\<close>

lemma sqrt_16: "sqrt 16 = 4"
  using real_sqrt_abs [of 4] by simp

lemma torch_split_single:
  "torch_split D [n] = Inr Ds \<Longrightarrow> \<exists>c. Ds = [c]"
  by (auto simp: torch_split_def split: if_splits)

lemma add_slices_frozen_then_trainable:
  "add_slices frozen_then_trainable [c] = (None, frozen_then_trainable)"
  by (simp add: frozen_then_trainable_def)

lemma numels_frozen_then_trainable:
  "map numel (filter requires_grad frozen_then_trainable) = [1]"
  by (simp add: frozen_then_trainable_def numel_def)

text \<open>
  C2, at the parameters \<open>frozen_then_trainable\<close>: line 331 computes one
  element count, that of the trainable second parameter, and line 336 cuts
  \<open>\<delta>\<close> into one slice; line 337 pairs that slice with the frozen first
  parameter and drops it. Whatever the Jacobian and the linear solver are,
  the step leaves the trainable parameter as it was. In the example the
  model returns its second parameter and the target is 4: \<open>\<delta>\<close> is 1, no
  parameter changes, and the step returns the error 4 of the old parameters.
\<close>

theorem LM_step_skips_parameter_after_frozen:
  "snd (LM_step cholesky cholesky_solve modjac model
          \<lparr>params = frozen_then_trainable, damping = dmp, pg_min = lo, pg_max = hi\<rparr>
          inputs targets)
     = \<lparr>params = frozen_then_trainable, damping = dmp, pg_min = lo, pg_max = hi\<rparr>
   \<and> (case LM_solve cholesky_1x1 cholesky_solve_1x1
          \<lparr>params = frozen_then_trainable, damping = 3, pg_min = 1 / 10 ^ 6, pg_max = 10 ^ 32\<rparr>
          (jacobian_one second_parameter frozen_then_trainable ()) (column [4]) of
        Inl e \<Rightarrow> [] | Inr D \<Rightarrow> rows_of D) = [[1]]
   \<and> LM_step cholesky_1x1 cholesky_solve_1x1 jacobian_one second_parameter
        \<lparr>params = frozen_then_trainable, damping = 3, pg_min = 1 / 10 ^ 6, pg_max = 10 ^ 32\<rparr>
        () (Some (Single [4]))
      = (Inr 4, \<lparr>params = frozen_then_trainable, damping = 3,
                 pg_min = 1 / 10 ^ 6, pg_max = 10 ^ 32\<rparr>)"
proof (intro conjI)
  show "snd (LM_step cholesky cholesky_solve modjac model
          \<lparr>params = frozen_then_trainable, damping = dmp, pg_min = lo, pg_max = hi\<rparr>
          inputs targets)
     = \<lparr>params = frozen_then_trainable, damping = dmp, pg_min = lo, pg_max = hi\<rparr>"
    unfolding LM_step_def Let_def
    by (auto split: sum.splits prod.splits option.splits dest!: torch_split_single
          simp: add_slices_frozen_then_trainable numels_frozen_then_trainable)
  show "(case LM_solve cholesky_1x1 cholesky_solve_1x1
          \<lparr>params = frozen_then_trainable, damping = 3, pg_min = 1 / 10 ^ 6, pg_max = 10 ^ 32\<rparr>
          (jacobian_one second_parameter frozen_then_trainable ()) (column [4]) of
        Inl e \<Rightarrow> [] | Inr D \<Rightarrow> rows_of D) = [[1]]"
    by (simp add: LM_solve_def matmul_def transpose_mat_def jacobian_one_def column_def
          add_damping_def clamp_def cholesky_1x1_def cholesky_solve_1x1_def rows_of_def)
  show "LM_step cholesky_1x1 cholesky_solve_1x1 jacobian_one second_parameter
        \<lparr>params = frozen_then_trainable, damping = 3, pg_min = 1 / 10 ^ 6, pg_max = 10 ^ 32\<rparr>
        () (Some (Single [4]))
      = (Inr 4, \<lparr>params = frozen_then_trainable, damping = 3,
                 pg_min = 1 / 10 ^ 6, pg_max = 10 ^ 32\<rparr>)"
    by (simp add: LM_step_def LM_solve_def matmul_def transpose_mat_def jacobian_one_def
          column_def add_damping_def clamp_def cholesky_1x1_def cholesky_solve_1x1_def
          rows_of_def residual_def second_parameter_def frozen_then_trainable_def tsub_def
          numel_def torch_split_def norm2_def sqrt_16)
qed

text \<open>
  C3, at the same parameters: line 97 of the Gauss-Newton step pairs the one
  slice of \<open>\<delta>\<close> with the frozen first parameter as well. Whatever the
  Jacobian and the pseudo-inverse are, no parameter changes. In the example
  \<open>\<delta>\<close> is 4, which added to the trainable parameter would bring the error to
  0; the step returns 4, the norm of the residual at the old parameters.
\<close>

theorem GN_step_skips_parameter_after_frozen:
  "snd (GN_step pinverse modjac model frozen_then_trainable inputs targets)
     = frozen_then_trainable
   \<and> (case GN_solve pinverse_1x1 (jacobian_one second_parameter frozen_then_trainable ())
             (column [4]) of
        Inl e \<Rightarrow> [] | Inr D \<Rightarrow> rows_of D) = [[4]]
   \<and> GN_step pinverse_1x1 jacobian_one second_parameter frozen_then_trainable ()
        (Some (Single [4]))
      = (Inr 4, frozen_then_trainable)"
proof (intro conjI)
  show "snd (GN_step pinverse modjac model frozen_then_trainable inputs targets)
          = frozen_then_trainable"
    unfolding GN_step_def Let_def numels_frozen_then_trainable
    by (auto split: sum.splits prod.splits option.splits dest!: torch_split_single
          simp: add_slices_frozen_then_trainable)
  show "(case GN_solve pinverse_1x1 (jacobian_one second_parameter frozen_then_trainable ())
             (column [4]) of
        Inl e \<Rightarrow> [] | Inr D \<Rightarrow> rows_of D) = [[4]]"
    by (simp add: GN_solve_def matmul_def transpose_mat_def jacobian_one_def column_def
          pinverse_1x1_def rows_of_def)
  show "GN_step pinverse_1x1 jacobian_one second_parameter frozen_then_trainable ()
        (Some (Single [4]))
      = (Inr 4, frozen_then_trainable)"
    by (simp add: GN_step_def GN_solve_def matmul_def transpose_mat_def jacobian_one_def
          column_def pinverse_1x1_def rows_of_def residual_def second_parameter_def
          frozen_then_trainable_def tsub_def numel_def torch_split_def norm2_def sqrt_16)
qed

subsection \<open>A residual that is zero\<close>

lemma GN_solve_ncol: "GN_solve pinverse J (column E) = Inr D \<Longrightarrow> ncol D = 1"
  by (auto simp: GN_solve_def matmul_def column_def transpose_mat_def split: if_splits sum.splits)

lemma GN_solve_zero:
  assumes "GN_solve pinverse J (column E) = Inr D" and "\<forall>e \<in> set E. e = 0"
  shows "ent D i j = 0"
proof -
  have zero: "(\<Sum>l<length E. ent J l k * E ! l) = 0" for k
    using assms(2) by (intro sum.neutral) simp
  from assms(1) show ?thesis
    by (auto simp: GN_solve_def matmul_def transpose_mat_def column_def zero
          split: if_splits sum.splits)
qed

lemma torch_split_zero:
  assumes "torch_split D ns = Inr Ds" and "\<And>i j. ent D i j = 0"
  shows "\<forall>d \<in> set Ds. \<forall>x \<in> set d. x = 0"
proof -
  have rows: "\<forall>r \<in> set (rows_of D). \<forall>x \<in> set r. x = 0"
    using assms(2) by (auto simp: rows_of_def)
  from assms(1) have Ds: "Ds = map concat (split_with_sizes (rows_of D) ns)"
    by (auto simp: torch_split_def split: if_splits)
  show ?thesis
    unfolding Ds using rows split_with_sizes_subset [of _ "rows_of D" ns] by fastforce
qed

lemma map2_add_zero:
  "\<forall>x \<in> set d. x = (0::real) \<Longrightarrow> length d = length xs \<Longrightarrow> map2 (+) xs d = xs"
  by (induction xs d rule: list_induct2') auto

lemma add_slices_zero:
  "\<forall>d \<in> set ds. \<forall>x \<in> set d. x = 0 \<Longrightarrow> snd (add_slices ps ds) = ps"
proof (induction ps ds rule: add_slices.induct)
  case (3 p ps d ds)
  then show ?case
    by (cases "requires_grad p") (auto split: prod.splits simp: map2_add_zero numel_def)
qed simp_all

lemma norm2_zero: "\<forall>e \<in> set E. e = 0 \<Longrightarrow> norm2 E = 0"
  unfolding norm2_def by (induction E) auto

text \<open>
  With a residual of zeros the update \<open>\<delta>\<close> is zero, no parameter changes, and
  a step that returns does return 0.
\<close>

lemma GN_step_zero_residual:
  assumes "residual model ps inputs targets = Inr E" and "\<forall>e \<in> set E. e = 0"
  shows "snd (GN_step pinverse modjac model ps inputs targets) = ps
         \<and> (\<forall>r. fst (GN_step pinverse modjac model ps inputs targets) = Inr r \<longrightarrow> r = 0)"
proof (cases "GN_solve pinverse (modjac model ps inputs) (column E)")
  case (Inl e)
  then show ?thesis using assms(1) by (simp add: GN_step_def)
next
  case (Inr D)
  then have D0: "\<And>i j. ent D i j = 0" using assms(2) by (rule GN_solve_zero)
  show ?thesis
  proof (cases "torch_split D (map numel (filter requires_grad ps))")
    case (Inl e)
    then show ?thesis using assms(1) Inr by (simp add: GN_step_def)
  next
    case split: (Inr Ds)
    then have "\<forall>d \<in> set Ds. \<forall>x \<in> set d. x = 0" using D0 by (rule torch_split_zero)
    then have same: "snd (add_slices ps Ds) = ps" by (rule add_slices_zero)
    show ?thesis
    proof (cases "add_slices ps Ds")
      case (Pair r ps')
      with same have ps': "ps' = ps" by simp
      show ?thesis
        using assms Inr split Pair ps'
        by (cases r) (simp_all add: GN_step_def norm2_zero)
    qed
  qed
qed

lemma torch_split_3_2:
  assumes "torch_split D [3, 2] = Inr Ds" and "ncol D = 1"
  shows "\<exists>c0 c1. Ds = [c0, c1] \<and> length c1 = 2"
proof -
  from assms(1) have n: "nrow D = 5"
    and Ds: "Ds = map concat (split_with_sizes (rows_of D) [3, 2])"
    by (auto simp: torch_split_def split: if_splits)
  have "[0..<5] = [0, 1, 2, 3, 4]"
    by (simp add: upt_rec [of _ 5] upt_rec [of _ "Suc _"] numeral_eq_Suc)
  then have "rows_of D = [[ent D 0 0], [ent D 1 0], [ent D 2 0], [ent D 3 0], [ent D 4 0]]"
    using n assms(2) by (simp add: rows_of_def)
  then show ?thesis by (simp add: Ds)
qed

text \<open>
  C9, at the parameters \<open>frozen_3_2\<close> and a model whose output, and so whose
  residual, is zero: the element counts of line 93 are 3 and 2, and line 97
  pairs the slice of 3 numbers with the frozen parameter and the slice of 2
  numbers with the trainable parameter of 3 numbers, whose \<^verbatim>\<open>view\<close> raises.
  Whatever the Jacobian and the pseudo-inverse are, the step raises and does
  not return 0.
\<close>

theorem GN_step_zero_residual_raises:
  "residual zero_output frozen_3_2 () None = Inr [0]
   \<and> (\<exists>e. GN_step pinverse modjac zero_output frozen_3_2 () None = (Inl e, frozen_3_2))"
proof
  show res: "residual zero_output frozen_3_2 () None = Inr [0]"
    by (simp add: residual_def zero_output_def)
  have numels: "map numel (filter requires_grad frozen_3_2) = [3, 2]"
    by (simp add: frozen_3_2_def numel_def)
  show "\<exists>e. GN_step pinverse modjac zero_output frozen_3_2 () None = (Inl e, frozen_3_2)"
  proof (cases "GN_solve pinverse (modjac zero_output frozen_3_2 ()) (column [0])")
    case (Inl e)
    then show ?thesis by (simp add: GN_step_def res)
  next
    case (Inr D)
    then have nc: "ncol D = 1" by (rule GN_solve_ncol)
    show ?thesis
    proof (cases "torch_split D [3, 2]")
      case (Inl e)
      then show ?thesis using Inr by (simp add: GN_step_def res numels)
    next
      case split: (Inr Ds)
      then obtain c0 c1 where Ds: "Ds = [c0, c1]" and c1: "length c1 = 2"
        using torch_split_3_2 [OF _ nc] by blast
      have "add_slices frozen_3_2 Ds
              = (Some (RuntimeError ''shape is invalid for input size''), frozen_3_2)"
        by (simp add: Ds c1 frozen_3_2_def numel_def)
      then show ?thesis using Inr split by (simp add: GN_step_def res numels)
    qed
  qed
qed

end
